theory Spec2Isabelle
  imports Complex_Main "HOL-Library.Monad_Syntax"
begin

section \<open>Strings of the run orchestrator\<close>

text \<open>
  The orchestrator is TypeScript: a string is a sequence of UTF-16 code units. The model
  uses \<^typ>\<open>string\<close>, whose characters are the code units below 256; every delimiter
  the code looks at (the marker, the colon, the double quote, the backslash, the line
  feed and the carriage return) lies there. The two further line terminators of
  ECMAScript, U+2028 and U+2029, are outside this range, so the theorems below speak
  about strings without them. The pictographs of the fixed message texts are never
  inspected by the code; they are kept as the bytes of their UTF-8 encoding.
\<close>

definition dquote :: char where
  "dquote = CHR 0x22"

definition backslash :: char where
  "backslash = CHR 0x5C"

definition LF :: char where
  "LF = CHR 0x0A"

definition CR :: char where
  "CR = CHR 0x0D"

definition CRLF :: string where
  "CRLF = [CR, LF]"

definition glyph_stopwatch :: string where
  "glyph_stopwatch = [CHR 0xE2, CHR 0x8F, CHR 0xB1]"

definition glyph_dash :: string where
  "glyph_dash = [CHR 0xE2, CHR 0x80, CHR 0x94]"

definition glyph_cross :: string where
  "glyph_cross = [CHR 0xE2, CHR 0x9D, CHR 0x8C]"

definition glyph_play :: string where
  "glyph_play = [CHR 0xE2, CHR 0x96, CHR 0xB6]"

definition glyph_stop :: string where
  "glyph_stop = [CHR 0xE2, CHR 0x8F, CHR 0xB9]"

definition glyph_boom :: string where
  "glyph_boom = [CHR 0xF0, CHR 0x9F, CHR 0x92, CHR 0xA5]"

definition glyph_warn :: string where
  "glyph_warn = [CHR 0xE2, CHR 0x9A, CHR 0xA0]"

definition glyph_check :: string where
  "glyph_check = [CHR 0xE2, CHR 0x9C, CHR 0x85]"

text \<open>\<^verbatim>\<open>const MAGIC = '[VSCODE-BUSTED-REPORT]'\<close>\<close>

definition MAGIC :: string where
  "MAGIC = ''[VSCODE-BUSTED-REPORT]''"

text \<open>\<^verbatim>\<open>s.startsWith(p)\<close> and \<^verbatim>\<open>s.substring(n)\<close> for \<open>n\<close> a natural number.\<close>

definition startsWith :: "string \<Rightarrow> string \<Rightarrow> bool" where
  "startsWith s p = (take (length p) s = p)"

definition substring :: "string \<Rightarrow> nat \<Rightarrow> string" where
  "substring s n = drop n s"

text \<open>
  \<^verbatim>\<open>s.split('\\').pop()\<close>: the piece after the last backslash (the whole string when
  there is none; \<^verbatim>\<open>split\<close> never returns an empty array for a one-character separator).
\<close>

definition split_pop :: "string \<Rightarrow> string" where
  "split_pop s = rev (takeWhile (\<lambda>c. c \<noteq> backslash) (rev s))"

text \<open>
  Template literals render a number in decimal. Counters and exit codes are integers far
  below \<open>10^21\<close>, where JavaScript starts to use an exponent.
\<close>

definition digit_char :: "nat \<Rightarrow> char" where
  "digit_char d = char_of (48 + d)"

function string_of_nat :: "nat \<Rightarrow> string" where
  "string_of_nat n =
     (if n < 10 then [digit_char n]
      else string_of_nat (n div 10) @ [digit_char (n mod 10)])"
  by pat_completeness auto
termination
  by (relation "measure id") auto

definition string_of_int :: "int \<Rightarrow> string" where
  "string_of_int i =
     (if i < 0 then CHR ''-'' # string_of_nat (nat (- i)) else string_of_nat (nat i))"

text \<open>A value that may be \<^verbatim>\<open>undefined\<close> or \<^verbatim>\<open>null\<close>, inside a template literal.\<close>

definition or_undefined :: "string option \<Rightarrow> string" where
  "or_undefined v = (case v of None \<Rightarrow> ''undefined'' | Some s \<Rightarrow> s)"

definition code_or_null :: "int option \<Rightarrow> string" where
  "code_or_null c = (case c of None \<Rightarrow> ''null'' | Some n \<Rightarrow> string_of_int n)"

text \<open>
  \<^verbatim>\<open>s.replace(pat, rep)\<close> with a \<^emph>\<open>string\<close> pattern replaces the first occurrence of the
  pattern, taken literally. With no capture groups a \<^verbatim>\<open>$1\<close> in the replacement stays as
  it is written.
\<close>

fun replace_first :: "string \<Rightarrow> string \<Rightarrow> string \<Rightarrow> string" where
  "replace_first pat rep [] = (if pat = [] then rep else [])"
| "replace_first pat rep (c # cs) =
     (if take (length pat) (c # cs) = pat then rep @ drop (length pat) (c # cs)
      else c # replace_first pat rep cs)"

section \<open>Regular expressions, as backtracking matchers\<close>

text \<open>
  A matcher maps the rest of the input to the list of ways it can match there, the
  preferred way first; backtracking is the list monad. \<open>lit\<close> matches a literal,
  \<open>star P\<close> is the greedy \<^verbatim>\<open>C*\<close> for a character class \<open>P\<close> (longest run first), and
  \<open>dot\<close> is the class of \<^verbatim>\<open>.\<close>: any character that is not a line terminator.
\<close>

definition lit :: "string \<Rightarrow> string \<Rightarrow> string list" where
  "lit l s = (if take (length l) s = l then [drop (length l) s] else [])"

definition star :: "(char \<Rightarrow> bool) \<Rightarrow> string \<Rightarrow> (string \<times> string) list" where
  "star P s =
     map (\<lambda>n. (take n s, drop n s)) (rev [0 ..< Suc (length (takeWhile P s))])"

definition dot :: "char \<Rightarrow> bool" where
  "dot c = (c \<noteq> LF \<and> c \<noteq> CR)"

definition at_end :: "string \<Rightarrow> unit list" where
  "at_end s = (if s = [] then [()] else [])"

text \<open>
  An expression that is not anchored is tried at every start position, from the left;
  the first match wins.
\<close>

definition first_match :: "(string \<Rightarrow> 'a list) \<Rightarrow> string \<Rightarrow> 'a option" where
  "first_match m s =
     (case concat (map (\<lambda>i. m (drop i s)) [0 ..< Suc (length s)]) of
        [] \<Rightarrow> None
      | x # _ \<Rightarrow> Some x)"

text \<open>\<^verbatim>\<open>/^".*"$/\<close>\<close>

definition quoted_regex :: "string \<Rightarrow> unit list" where
  "quoted_regex s =
     do {
       r1 \<leftarrow> lit [dquote] s;
       (_, r2) \<leftarrow> star dot r1;
       r3 \<leftarrow> lit [dquote] r2;
       at_end r3
     }"

text \<open>
  \<^verbatim>\<open>/[^:]*: (?<msg>.*)\nPassed in:\n(?<actual>.*)\nExpected:\n(?<expected>.*)/\<close>;
  a match yields the groups \<open>(msg, actual, expected)\<close>.
\<close>

definition diff_regex :: "string \<Rightarrow> (string \<times> string \<times> string) list" where
  "diff_regex s =
     do {
       (_, r1) \<leftarrow> star (\<lambda>c. c \<noteq> CHR '':'') s;
       r2 \<leftarrow> lit '': '' r1;
       (msg, r3) \<leftarrow> star dot r2;
       r4 \<leftarrow> lit (LF # ''Passed in:'' @ [LF]) r3;
       (actual, r5) \<leftarrow> star dot r4;
       r6 \<leftarrow> lit (LF # ''Expected:'' @ [LF]) r5;
       (expected, _) \<leftarrow> star dot r6;
       [(msg, actual, expected)]
     }"

text \<open>\<^verbatim>\<open>s.replace(/"/g, '\\"')\<close>: every double quote gets a backslash in front.\<close>

definition escape_quotes :: "string \<Rightarrow> string" where
  "escape_quotes s = concat (map (\<lambda>c. if c = dquote then [backslash, dquote] else [c]) s)"

section \<open>What one run is given\<close>

text \<open>
  A \<^verbatim>\<open>vscode.TestItem\<close>, as far as the orchestrator looks at it: its identifier and its
  \<^verbatim>\<open>uri\<close>, which may be undefined. Numbers that are only passed on (a duration) are
  rationals: every number that JSON can spell is one.
\<close>

type_synonym number = rat

record testItem =
  item_id :: string
  uri :: "string option"

text \<open>
  The decoded report, with its properties typed as on the wire; a property that is
  absent reads \<^verbatim>\<open>undefined\<close>, which is \<open>None\<close>. A decoded value that is no object, or
  has no property \<^verbatim>\<open>test\<close>, behaves as a report with \<open>test = None\<close>.
\<close>

record report =
  rtype :: "string option"
  test :: "string option"
  status :: "string option"
  duration :: "number option"
  message :: "string option"
  line :: "int option"

text \<open>
  What \<^verbatim>\<open>execute\<close> reads from its surroundings: \<^verbatim>\<open>process.platform\<close>, the JSON decoder
  of the runtime, the identity resolver \<^verbatim>\<open>cache.getTest\<close>, and the configuration (idle
  time, executable, reporter script, extra arguments). \<^verbatim>\<open>JSON.parse\<close> throws a
  \<^verbatim>\<open>SyntaxError\<close> on a payload that is not JSON: that is the value \<open>None\<close>.
\<close>

record env =
  platform :: string
  JSON_parse :: "string \<Rightarrow> report option"
  getTest :: "string \<Rightarrow> testItem option"
  idleTimeoutMs :: int
  bustedExecutable :: string
  reporterPath :: string
  getArguments :: "string list"

section \<open>Process launcher: the argument vector\<close>

text \<open>
  \<^verbatim>\<open>
  function quoteIfWindows (s: string): string {
    if (process.platform !== 'win32') return s
    if (/^".*"$/.test(s)) return s
    return `"${s.replace(/"/g, '\\"')}"`
  }
  \<close>
  \<^verbatim>\<open>process.platform\<close> is the first argument.
\<close>

definition quoteIfWindows :: "string \<Rightarrow> string \<Rightarrow> string" where
  "quoteIfWindows os s =
     (if os \<noteq> ''win32'' then s
      else if quoted_regex s \<noteq> [] then s
      else [dquote] @ escape_quotes s @ [dquote])"

text \<open>
  \<^verbatim>\<open>
  const args = [
    ...[...filter].map(name => `--filter=${quoteIfWindows(name)}`),
    '-o', reporterPath,
    ...config.getArguments(),
    ...files
  ]
  \<close>
  The two sets are iterated in insertion order: they are lists here.
\<close>

definition execute_args :: "env \<Rightarrow> string list \<Rightarrow> string list \<Rightarrow> string list" where
  "execute_args e filter_names files =
     map (\<lambda>name. ''--filter='' @ quoteIfWindows (platform e) name) filter_names
     @ [''-o'', reporterPath e]
     @ getArguments e
     @ files"

section \<open>The run sink and the other effects\<close>

text \<open>
  \<^verbatim>\<open>new vscode.Location(uri, new vscode.Position(line, character))\<close> is the triple
  \<open>(uri, line, character)\<close>. A \<^verbatim>\<open>vscode.TestMessage\<close> has a text, the two sides of a diff
  when it was built by \<^verbatim>\<open>TestMessage.diff(message, expected, actual)\<close>, and a location.
\<close>

type_synonym location = "string \<times> int \<times> int"

record testMessage =
  tm_message :: string
  expectedOutput :: "string option"
  actualOutput :: "string option"
  location :: "location option"

definition TestMessage :: "string \<Rightarrow> testMessage" where
  "TestMessage m =
     \<lparr>tm_message = m, expectedOutput = None, actualOutput = None, location = None\<rparr>"

definition TestMessage_diff :: "string \<Rightarrow> string \<Rightarrow> string \<Rightarrow> testMessage" where
  "TestMessage_diff m expected actual =
     \<lparr>tm_message = m, expectedOutput = Some expected, actualOutput = Some actual,
      location = None\<rparr>"

datatype fault = SyntaxError | TypeError

text \<open>
  Every call the orchestrator makes on a collaborator is an effect, in the order of the
  calls: the methods of the run sink (\<^verbatim>\<open>run.appendOutput\<close>, \<^verbatim>\<open>run.started\<close>, ...), the
  logger, the notification, \<^verbatim>\<open>child.kill()\<close> and the \<^verbatim>\<open>resolve\<close> of the promise.
  \<open>Uncaught f\<close> marks an exception that left an event handler. The collaborators'
  calls themselves are taken not to throw.
\<close>

datatype effect =
    AppendOutput string "location option" "testItem option"
  | Started testItem
  | Passed testItem "number option"
  | Failed testItem testMessage "number option"
  | Skipped testItem
  | Errored testItem testMessage "number option"
  | LoggerInfo string
  | LoggerDebug string
  | LoggerError string
  | DeveloperLog string "string list"
  | ShowErrorMessage string
  | Kill
  | Resolve int
  | Uncaught fault

text \<open>
  \<^verbatim>\<open>
  function resultConcole (run, msg, location?, test?) {
    run.appendOutput(msg + '\r\n', location, test)
  }
  \<close>
\<close>

definition resultConcole :: "string \<Rightarrow> location option \<Rightarrow> testItem option \<Rightarrow> effect" where
  "resultConcole msg loc t = AppendOutput (msg @ CRLF) loc t"

section \<open>Error messages\<close>

text \<open>
  \<^verbatim>\<open>
  function getErrorMessage (test: vscode.TestItem, report: Report) {
    if (report.message) {
      const diff = report.message.match(/[^:]*: (?<msg>.*)\nPassed in:\n(?<actual>.*)\nExpected:\n(?<expected>.*)/)
      let message
      if (diff && diff.groups) {
        message = vscode.TestMessage.diff(diff.groups.msg, diff.groups.expected, diff.groups.actual)
      } else {
        message = new vscode.TestMessage(report.message)
      }
      if (test.uri && report.line) {
        message.location = new vscode.Location(test.uri, new vscode.Position(report.line - 1, 0))
      }
      return message
    }
    return new vscode.TestMessage('Unknown error')
  }
  \<close>
  A string is truthy when it is not empty, a number when it is not zero, and
  \<^verbatim>\<open>test.uri\<close> (an object) whenever it is defined. The position is recorded with the
  line as the code computes it; a report's line is 1-based, and the statements below
  about the location speak of lines from 1 on.
\<close>

definition getErrorMessage :: "testItem \<Rightarrow> report \<Rightarrow> testMessage" where
  "getErrorMessage t r =
     (case message r of
        None \<Rightarrow> TestMessage ''Unknown error''
      | Some m \<Rightarrow>
          if m = [] then TestMessage ''Unknown error''
          else
            let msg0 = (case first_match diff_regex m of
                          Some (msg, actual, expected) \<Rightarrow> TestMessage_diff msg expected actual
                        | None \<Rightarrow> TestMessage m)
            in (case (uri t, line r) of
                  (Some u, Some n) \<Rightarrow>
                    if n \<noteq> 0 then msg0\<lparr>location := Some (u, n - 1, 0)\<rparr> else msg0
                | _ \<Rightarrow> msg0))"

section \<open>The line handler of \<^verbatim>\<open>execute\<close>\<close>

text \<open>
  The variables the handlers of one run close over:
  \<^verbatim>\<open>
  let cntSuccessTests: number = 0
  let cntFailTests: number = 0
  let currentTest: vscode.TestItem | undefined
  \<close>
\<close>

record session =
  cntSuccessTests :: nat
  cntFailTests :: nat
  currentTest :: "testItem option"

text \<open>
  One call of a handler: the effects in call order, the variables when the handler is
  left, and the exception that left it, if any. An assignment made before a
  \<^verbatim>\<open>throw\<close> stays made.
\<close>

record outcome =
  emitted :: "effect list"
  final :: session
  raised :: "fault option"

definition returns :: "effect list \<Rightarrow> session \<Rightarrow> outcome" where
  "returns es s = \<lparr>emitted = es, final = s, raised = None\<rparr>"

definition throws :: "effect list \<Rightarrow> session \<Rightarrow> fault \<Rightarrow> outcome" where
  "throws es s f = \<lparr>emitted = es, final = s, raised = Some f\<rparr>"

text \<open>
  \<^verbatim>\<open>
  case 'testEnd':
    resultConcole(run, `[Busted] ... End: ${testName} (${report.status})`)
    currentTest = undefined
    if (test) {
      switch (report.status) {
        case 'success': run.passed(test, report.duration); cntSuccessTests++; break
        case 'failure': run.failed(test, getErrorMessage(test, report), report.duration); cntFailTests++; break
        case 'pending': run.skipped(test); break
        case 'error': run.errored(test, getErrorMessage(test, report), report.duration); cntFailTests++; break
      }
    }
    break
  \<close>
  The inner switch has no default: another status does nothing.
\<close>

definition testEnd_dispatch :: "session \<Rightarrow> testItem \<Rightarrow> report \<Rightarrow> effect list \<times> session" where
  "testEnd_dispatch s t r =
     (if status r = Some ''success'' then
        ([Passed t (duration r)], s\<lparr>cntSuccessTests := cntSuccessTests s + 1\<rparr>)
      else if status r = Some ''failure'' then
        ([Failed t (getErrorMessage t r) (duration r)], s\<lparr>cntFailTests := cntFailTests s + 1\<rparr>)
      else if status r = Some ''pending'' then
        ([Skipped t], s)
      else if status r = Some ''error'' then
        ([Errored t (getErrorMessage t r) (duration r)], s\<lparr>cntFailTests := cntFailTests s + 1\<rparr>)
      else ([], s))"

text \<open>
  The pattern of the \<^verbatim>\<open>replace\<close> in the \<^verbatim>\<open>error\<close> case is written in quotes,
  \<^verbatim>\<open>'/([^\r])\n/g'\<close>: it is a string of ten characters, not a regular expression.
\<close>

definition error_pattern :: string where
  "error_pattern = ''/([^'' @ [CR] @ ''])'' @ [LF] @ ''/g''"

definition error_replacement :: string where
  "error_replacement = ''$1'' @ [CR, LF]"

text \<open>
  \<^verbatim>\<open>
  rl.on('line', (line: string) => {
    if (line.startsWith(MAGIC)) {
      const report = JSON.parse(line.substring(MAGIC.length + 1))
      const test = cache.getTest(report.test)
      const testName = report.test.split('\\').pop()
      switch (report.type) {
        case 'testStart':
          resultConcole(run, `[Busted] ... Run: ${testName}`)
          if (test) { run.started(test); currentTest = test }
          break
        case 'testEnd': ...
        case 'error': {
          cntFailTests++;
          const mgs = `[Busted] ... error: ${report.message.replace('/([^\r])\n/g', '$1\r\n')}\r\n`
          resultConcole(run, mgs, undefined, currentTest)
          Logger.error(`[Busted] ... error: ${report.message}`)
          break
        }
        default: {
          cntFailTests++;
          const msg = '[Busted] ... unknown report type:'
          Logger.developerLog(msg, report.type)
          Logger.debug(msg + report.type)
          break
        }
      }
    } else {
      resultConcole(run, line, undefined, currentTest)
      Logger.debug(line)
    }
  })
  \<close>
  There is no \<^verbatim>\<open>try\<close> in the handler. \<^verbatim>\<open>JSON.parse\<close> throws a \<^verbatim>\<open>SyntaxError\<close>;
  calling \<^verbatim>\<open>split\<close> or \<^verbatim>\<open>replace\<close> on \<^verbatim>\<open>undefined\<close> throws a \<^verbatim>\<open>TypeError\<close>.
\<close>

definition onLine :: "env \<Rightarrow> session \<Rightarrow> string \<Rightarrow> outcome" where
  "onLine e s l =
     (if startsWith l MAGIC then
        (case JSON_parse e (substring l (length MAGIC + 1)) of
           None \<Rightarrow> throws [] s SyntaxError
         | Some r \<Rightarrow>
             (case test r of
                None \<Rightarrow> throws [] s TypeError
              | Some name \<Rightarrow>
                  let t = getTest e name;
                      testName = split_pop name
                  in
                  if rtype r = Some ''testStart'' then
                    (case t of
                       None \<Rightarrow>
                         returns
                           [resultConcole (''[Busted] '' @ glyph_play @ '' Run: '' @ testName)
                              None None] s
                     | Some t' \<Rightarrow>
                         returns
                           [resultConcole (''[Busted] '' @ glyph_play @ '' Run: '' @ testName)
                              None None,
                            Started t']
                           (s\<lparr>currentTest := Some t'\<rparr>))
                  else if rtype r = Some ''testEnd'' then
                    (let out = resultConcole
                                 (''[Busted] '' @ glyph_stop @ '' End: '' @ testName @ '' (''
                                    @ or_undefined (status r) @ '')'') None None;
                         s1 = s\<lparr>currentTest := None\<rparr>
                     in case t of
                          None \<Rightarrow> returns [out] s1
                        | Some t' \<Rightarrow>
                            (case testEnd_dispatch s1 t' r of
                               (es, s2) \<Rightarrow> returns (out # es) s2))
                  else if rtype r = Some ''error'' then
                    (let s1 = s\<lparr>cntFailTests := cntFailTests s + 1\<rparr>
                     in case message r of
                          None \<Rightarrow> throws [] s1 TypeError
                        | Some m \<Rightarrow>
                            returns
                              [resultConcole
                                 (''[Busted] '' @ glyph_boom @ '' error: ''
                                    @ replace_first error_pattern error_replacement m @ CRLF)
                                 None (currentTest s1),
                               LoggerError (''[Busted] '' @ glyph_boom @ '' error: '' @ m)]
                              s1)
                  else
                    returns
                      [DeveloperLog (''[Busted] '' @ glyph_warn @ '' unknown report type:'')
                         [or_undefined (rtype r)],
                       LoggerDebug (''[Busted] '' @ glyph_warn @ '' unknown report type:''
                                      @ or_undefined (rtype r))]
                      (s\<lparr>cntFailTests := cntFailTests s + 1\<rparr>)))
      else
        returns [resultConcole l None (currentTest s), LoggerDebug l] s)"

section \<open>The idle watchdog\<close>

text \<open>
  \<^verbatim>\<open>
  function withIdleWatchdog (child, ms: number, run: vscode.TestRun,
                             currentTest: vscode.TestItem | undefined): void {
    let last = Date.now()
    const bump = () => { last = Date.now() }
    child.stdout?.on('data', (_d) => bump())
    child.stderr?.on('data', (_d) => bump())
    child.on('close', () => clearInterval(timer))
    child.on('error', () => clearInterval(timer))
    const timer = setInterval(() => {
      if (Date.now() - last > ms) {
        const msg = `[Busted] ... No output for ${ms}ms ... killing process ...`
        run.appendOutput(msg + '\r\n', undefined, currentTest)
        // if there is an active testItem, mark it as errored
        if (currentTest) {
          const message = new vscode.TestMessage(msg)
          run.errored(currentTest, message)
        }
        child.kill()
        clearInterval(timer)
      }
    }, 1000)
  }
  \<close>
  The state of one watchdog: its variable \<^verbatim>\<open>last\<close>, its parameters \<^verbatim>\<open>ms\<close> and
  \<^verbatim>\<open>currentTest\<close> (a parameter: the value of the argument at the call), and whether the
  interval timer is still set. The clock readings \<^verbatim>\<open>Date.now()\<close> come with the events.
  The \<^verbatim>\<open>try\<close> blocks of the source guard calls that are taken not to throw here.
\<close>

record watchdog =
  last_t :: int
  ms :: int
  wd_currentTest :: "testItem option"
  timer :: bool

definition withIdleWatchdog :: "int \<Rightarrow> testItem option \<Rightarrow> int \<Rightarrow> watchdog" where
  "withIdleWatchdog idle current now =
     \<lparr>last_t = now, ms = idle, wd_currentTest = current, timer = True\<rparr>"

definition bump :: "watchdog \<Rightarrow> int \<Rightarrow> watchdog" where
  "bump w now = w\<lparr>last_t := now\<rparr>"

definition clearInterval :: "watchdog \<Rightarrow> watchdog" where
  "clearInterval w = w\<lparr>timer := False\<rparr>"

definition timeout_text :: "int \<Rightarrow> string" where
  "timeout_text idle =
     ''[Busted] '' @ glyph_stopwatch @ '' No output for '' @ string_of_int idle @ ''ms ''
       @ glyph_dash @ '' killing process '' @ glyph_cross"

text \<open>The callback of \<^verbatim>\<open>setInterval\<close>; a cleared timer calls nothing.\<close>

definition tick :: "watchdog \<Rightarrow> int \<Rightarrow> effect list \<times> watchdog" where
  "tick w now =
     (if timer w then
        (if now - last_t w > ms w then
           ([AppendOutput (timeout_text (ms w) @ CRLF) None (wd_currentTest w)]
              @ (case wd_currentTest w of
                   None \<Rightarrow> []
                 | Some t \<Rightarrow> [Errored t (TestMessage (timeout_text (ms w))) None])
              @ [Kill],
            clearInterval w)
         else ([], w))
      else ([], w))"

section \<open>The events of one run\<close>

text \<open>
  Everything arrives on one event loop: a chunk on the child's standard output or
  standard error (with the clock reading), a line that \<^verbatim>\<open>readline\<close> cut from standard
  output, a tick of the watchdog's timer (with the clock reading), the child's
  \<^verbatim>\<open>close\<close> (with its exit code, or \<^verbatim>\<open>null\<close>) and \<^verbatim>\<open>error\<close> events, and the
  cancellation request.
\<close>

datatype event =
    StdoutData int
  | StderrData int string
  | LineRead string
  | TimerTick int
  | ChildClose "int option"
  | ChildError string
  | CancellationRequested

text \<open>The listeners that \<^verbatim>\<open>withIdleWatchdog\<close> registers.\<close>

definition watch :: "watchdog \<Rightarrow> event \<Rightarrow> effect list \<times> watchdog" where
  "watch w ev =
     (case ev of
        StdoutData now \<Rightarrow> ([], bump w now)
      | StderrData now d \<Rightarrow> ([], bump w now)
      | TimerTick now \<Rightarrow> tick w now
      | ChildClose c \<Rightarrow> ([], clearInterval w)
      | ChildError m \<Rightarrow> ([], clearInterval w)
      | LineRead l \<Rightarrow> ([], w)
      | CancellationRequested \<Rightarrow> ([], w))"

fun watch_all :: "watchdog \<Rightarrow> event list \<Rightarrow> effect list \<times> watchdog" where
  "watch_all w [] = ([], w)"
| "watch_all w (ev # evs) =
     (case watch w ev of
        (es, w') \<Rightarrow> (case watch_all w' evs of (es', w'') \<Rightarrow> (es @ es', w'')))"

text \<open>
  \<^verbatim>\<open>
  busted.on('close', (code) => {
    const msg: string = code === 0
      ? '[Busted] ... Finished successfully'
      : `[Busted] ... Failed with exit code ${code}`
    const statistics: string = `with success: ${cntSuccessTests} and fails: ${cntFailTests}`
    resultConcole(run, `${msg} ${statistics}`, undefined, currentTest)
    Logger.info(msg)
    Logger.developerLog(`[Busted] close: ${code}`)
    resolve(code ?? 1)
  })
  \<close>
\<close>

definition close_msg :: "int option \<Rightarrow> string" where
  "close_msg c =
     (if c = Some 0 then ''[Busted] '' @ glyph_check @ '' Finished successfully''
      else ''[Busted] '' @ glyph_cross @ '' Failed with exit code '' @ code_or_null c)"

definition statistics :: "session \<Rightarrow> string" where
  "statistics s =
     ''with success: '' @ string_of_nat (cntSuccessTests s) @ '' and fails: ''
       @ string_of_nat (cntFailTests s)"

definition onClose :: "session \<Rightarrow> int option \<Rightarrow> effect list" where
  "onClose s c =
     [resultConcole (close_msg c @ '' '' @ statistics s) None (currentTest s),
      LoggerInfo (close_msg c),
      DeveloperLog (''[Busted] close: '' @ code_or_null c) [],
      Resolve (case c of None \<Rightarrow> 1 | Some n \<Rightarrow> n)]"

text \<open>
  \<^verbatim>\<open>
  busted.stderr.on('data', data => {
    const s = data.toString()
    resultConcole(run, `[Busted] ... stderr: ${s}`, undefined, currentTest)
    Logger.error(`[Busted] ... stderr: ${s}`)
  })
  busted.on('error', (error) => {
    resultConcole(run, `[Busted] ... error: ${error.message}`, undefined, currentTest)
    Logger.error(`[Busted] ... spawn error: ${error.message}\r\nCheck that '${bustedExecutable}' is installed and in your PATH`)
    vscode.window.showErrorMessage(`[Busted] Failed to spawn busted: (${error.message})`)
  })
  token.onCancellationRequested(() => { busted.kill() })
  \<close>
\<close>

definition onStderr :: "session \<Rightarrow> string \<Rightarrow> effect list" where
  "onStderr s d =
     [resultConcole (''[Busted] '' @ glyph_warn @ '' stderr: '' @ d) None (currentTest s),
      LoggerError (''[Busted] '' @ glyph_boom @ '' stderr: '' @ d)]"

definition onError :: "env \<Rightarrow> session \<Rightarrow> string \<Rightarrow> effect list" where
  "onError e s m =
     [resultConcole (''[Busted] '' @ glyph_warn @ '' error: '' @ m) None (currentTest s),
      LoggerError (''[Busted] '' @ glyph_boom @ '' spawn error: '' @ m @ CRLF
                     @ ''Check that '' @ [CHR 0x27] @ bustedExecutable e @ [CHR 0x27]
                     @ '' is installed and in your PATH''),
      ShowErrorMessage (''[Busted] Failed to spawn busted: ('' @ m @ '')'')]"

text \<open>
  The handlers that \<^verbatim>\<open>execute\<close> registers. An exception that leaves the line handler
  is not caught anywhere in the source: it is recorded as \<open>Uncaught\<close>.
\<close>

definition handlers :: "env \<Rightarrow> session \<Rightarrow> event \<Rightarrow> effect list \<times> session" where
  "handlers e s ev =
     (case ev of
        LineRead l \<Rightarrow>
          (let out = onLine e s l
           in (emitted out @ (case raised out of None \<Rightarrow> [] | Some f \<Rightarrow> [Uncaught f]),
               final out))
      | StderrData now d \<Rightarrow> (onStderr s d, s)
      | ChildClose c \<Rightarrow> (onClose s c, s)
      | ChildError m \<Rightarrow> (onError e s m, s)
      | CancellationRequested \<Rightarrow> ([Kill], s)
      | StdoutData now \<Rightarrow> ([], s)
      | TimerTick now \<Rightarrow> ([], s))"

text \<open>
  One run: the variables of \<^verbatim>\<open>execute\<close> and its watchdog. On an event the watchdog's
  listener runs first (it was registered first), then the one of \<^verbatim>\<open>execute\<close>.
\<close>

record run_state =
  rs_session :: session
  rs_watchdog :: watchdog

definition step :: "env \<Rightarrow> run_state \<Rightarrow> event \<Rightarrow> effect list \<times> run_state" where
  "step e rs ev =
     (case watch (rs_watchdog rs) ev of
        (es1, w) \<Rightarrow>
          (case handlers e (rs_session rs) ev of
             (es2, s) \<Rightarrow> (es1 @ es2, \<lparr>rs_session = s, rs_watchdog = w\<rparr>)))"

fun run :: "env \<Rightarrow> run_state \<Rightarrow> event list \<Rightarrow> effect list \<times> run_state" where
  "run e rs [] = ([], rs)"
| "run e rs (ev # evs) =
     (case step e rs ev of
        (es, rs') \<Rightarrow> (case run e rs' evs of (es', rs'') \<Rightarrow> (es @ es', rs'')))"

text \<open>
  \<^verbatim>\<open>
  let cntSuccessTests: number = 0
  let cntFailTests: number = 0
  let currentTest: vscode.TestItem | undefined
  const idleMs = vscode.workspace.getConfiguration('busted-test-explorer').get('idleTimeoutMs', 120000)
  withIdleWatchdog(busted, idleMs, run, currentTest)
  \<close>
  \<^verbatim>\<open>currentTest\<close> is still \<^verbatim>\<open>undefined\<close> when it is passed to the watchdog.
\<close>

definition execute_start :: "env \<Rightarrow> int \<Rightarrow> run_state" where
  "execute_start e now =
     (let s0 = \<lparr>cntSuccessTests = 0, cntFailTests = 0, currentTest = None\<rparr>
      in \<lparr>rs_session = s0,
          rs_watchdog = withIdleWatchdog (idleTimeoutMs e) (currentTest s0) now\<rparr>)"

section \<open>Reading a trace\<close>

text \<open>The calls of \<^verbatim>\<open>run.appendOutput\<close> in a trace: text, location and attributed test.\<close>

fun sink_outputs :: "effect list \<Rightarrow> (string \<times> location option \<times> testItem option) list" where
  "sink_outputs [] = []"
| "sink_outputs (AppendOutput txt loc t # es) = (txt, loc, t) # sink_outputs es"
| "sink_outputs (x # es) = sink_outputs es"

text \<open>The lines among the events of a run, in order of arrival.\<close>

fun lines_of :: "event list \<Rightarrow> string list" where
  "lines_of [] = []"
| "lines_of (LineRead l # evs) = l # lines_of evs"
| "lines_of (ev # evs) = lines_of evs"

text \<open>
  The vocabulary of the result protocol. A line is structured when it starts with the
  marker; its report is what the decoder makes of the payload. The kinds of report are
  \<^verbatim>\<open>testStart\<close>, \<^verbatim>\<open>testEnd\<close>, \<^verbatim>\<open>error\<close>, and unknown for anything else.
\<close>

definition decoded :: "env \<Rightarrow> string \<Rightarrow> report option" where
  "decoded e l =
     (if startsWith l MAGIC then JSON_parse e (substring l (length MAGIC + 1)) else None)"




definition is_resolved_testStart :: "env \<Rightarrow> string \<Rightarrow> bool" where
  "is_resolved_testStart e l =
     (case decoded e l of
        None \<Rightarrow> False
      | Some r \<Rightarrow>
          (case test r of
             None \<Rightarrow> False
           | Some name \<Rightarrow> rtype r = Some ''testStart'' \<and> getTest e name \<noteq> None))"


section \<open>A sample run\<close>

text \<open>
  One test item, the payloads of a few reports, and an environment for them. Its decoder
  is \<^verbatim>\<open>JSON.parse\<close> on the payloads that occur below: for each payload listed it gives
  the report that \<^verbatim>\<open>JSON.parse\<close> makes of it, and it rejects \<^verbatim>\<open>{oops\<close>, which is not
  JSON. Its resolver knows the test \<^verbatim>\<open>suite a\<close> and no other.
\<close>

definition sample_item :: testItem where
  "sample_item = \<lparr>item_id = ''suite a'', uri = Some ''file:///spec/a_spec.lua''\<rparr>"

definition quoted :: "string \<Rightarrow> string" where
  "quoted s = [dquote] @ s @ [dquote]"

definition blank_report :: report where
  "blank_report =
     \<lparr>rtype = None, test = None, status = None, duration = None, message = None,
      line = None\<rparr>"

definition payload_start :: string where
  "payload_start =
     ''{'' @ quoted ''type'' @ '':'' @ quoted ''testStart'' @ '','' @ quoted ''test'' @ '':''
       @ quoted ''suite a'' @ ''}''"

definition payload_success :: string where
  "payload_success =
     ''{'' @ quoted ''type'' @ '':'' @ quoted ''testEnd'' @ '','' @ quoted ''test'' @ '':''
       @ quoted ''suite a'' @ '','' @ quoted ''status'' @ '':'' @ quoted ''success'' @ ''}''"

definition payload_failure :: string where
  "payload_failure =
     ''{'' @ quoted ''type'' @ '':'' @ quoted ''testEnd'' @ '','' @ quoted ''test'' @ '':''
       @ quoted ''suite a'' @ '','' @ quoted ''status'' @ '':'' @ quoted ''failure'' @ '',''
       @ quoted ''line'' @ '':5}''"

definition payload_error :: string where
  "payload_error =
     ''{'' @ quoted ''type'' @ '':'' @ quoted ''error'' @ '','' @ quoted ''test'' @ '':''
       @ quoted ''suite a'' @ ''}''"

definition payload_stray :: string where
  "payload_stray =
     ''{'' @ quoted ''type'' @ '':'' @ quoted ''testStart'' @ '','' @ quoted ''test'' @ '':''
       @ quoted ''suite z'' @ ''}''"

definition payload_other :: string where
  "payload_other =
     ''{'' @ quoted ''type'' @ '':'' @ quoted ''suiteEnd'' @ '','' @ quoted ''test'' @ '':''
       @ quoted ''suite a'' @ ''}''"

definition sample_parse :: "string \<Rightarrow> report option" where
  "sample_parse =
     map_of
       [(payload_start, blank_report\<lparr>rtype := Some ''testStart'', test := Some ''suite a''\<rparr>),
        (payload_success,
           blank_report\<lparr>rtype := Some ''testEnd'', test := Some ''suite a'',
                         status := Some ''success''\<rparr>),
        (payload_failure,
           blank_report\<lparr>rtype := Some ''testEnd'', test := Some ''suite a'',
                         status := Some ''failure'', line := Some 5\<rparr>),
        (payload_error, blank_report\<lparr>rtype := Some ''error'', test := Some ''suite a''\<rparr>),
        (payload_stray, blank_report\<lparr>rtype := Some ''testStart'', test := Some ''suite z''\<rparr>),
        (payload_other, blank_report\<lparr>rtype := Some ''suiteEnd'', test := Some ''suite a''\<rparr>)]"

definition sample_env :: "string \<Rightarrow> env" where
  "sample_env os =
     \<lparr>platform = os,
      JSON_parse = sample_parse,
      getTest = map_of [(''suite a'', sample_item)],
      idleTimeoutMs = 120000,
      bustedExecutable = ''busted'',
      reporterPath = ''res/reporter.lua'',
      getArguments = []\<rparr>"

definition structured :: "string \<Rightarrow> string" where
  "structured payload = MAGIC @ '' '' @ payload"

definition sample_session :: session where
  "sample_session = \<lparr>cntSuccessTests = 0, cntFailTests = 0, currentTest = Some sample_item\<rparr>"

text \<open>The message of the protocol's diff example.\<close>

definition sample_diff :: string where
  "sample_diff =
     ''AssertionError: msg'' @ [LF] @ ''Passed in:'' @ [LF] @ ''A'' @ [LF] @ ''Expected:''
       @ [LF] @ ''B''"



section \<open>Properties of the matchers\<close>

declare string_of_nat.simps [simp del]

lemma set_lit: "set (lit l s) = {r. s = l @ r}"
  by (auto simp: lit_def) (metis append_take_drop_id)

lemma length_takeWhile_ge:
  "n \<le> length (takeWhile P s) \<longleftrightarrow> n \<le> length s \<and> list_all P (take n s)"
proof (induction s arbitrary: n)
  case Nil
  then show ?case by simp
next
  case (Cons a s)
  then show ?case by (cases n) auto
qed

lemma set_star: "set (star P s) = {(a, b). s = a @ b \<and> list_all P a}"
proof (rule set_eqI)
  fix x :: "string \<times> string"
  obtain a b where x: "x = (a, b)" by (cases x)
  show "x \<in> set (star P s) \<longleftrightarrow> x \<in> {(a, b). s = a @ b \<and> list_all P a}"
  proof
    assume "x \<in> set (star P s)"
    then have "\<exists>n. n \<le> length (takeWhile P s) \<and> a = take n s \<and> b = drop n s"
      unfolding star_def x by (auto simp del: upt_Suc simp: less_Suc_eq_le)
    then obtain n where n: "n \<le> length (takeWhile P s)" "a = take n s" "b = drop n s"
      by blast
    then show "x \<in> {(a, b). s = a @ b \<and> list_all P a}"
      by (simp add: x length_takeWhile_ge)
  next
    assume "x \<in> {(a, b). s = a @ b \<and> list_all P a}"
    then have s: "s = a @ b" and all: "list_all P a" by (simp_all add: x)
    have "length a \<le> length (takeWhile P s)"
      by (simp add: length_takeWhile_ge s all)
    moreover have "a = take (length a) s" "b = drop (length a) s" by (simp_all add: s)
    ultimately show "x \<in> set (star P s)"
      unfolding star_def x by (auto simp del: upt_Suc simp: less_Suc_eq_le image_iff)
  qed
qed

lemma quoted_regex_iff:
  "quoted_regex s \<noteq> [] \<longleftrightarrow> (\<exists>mid. s = [dquote] @ mid @ [dquote] \<and> list_all dot mid)"
proof -
  have "quoted_regex s \<noteq> [] \<longleftrightarrow> set (quoted_regex s) \<noteq> {}" by simp
  also have "\<dots> \<longleftrightarrow> (\<exists>mid. s = [dquote] @ mid @ [dquote] \<and> list_all dot mid)"
    unfolding quoted_regex_def
    by (auto simp: set_lit set_star at_end_def List.bind_def split: if_splits)
  finally show ?thesis .
qed

lemma star_append:
  assumes "list_all P a" and "b = [] \<or> \<not> P (hd b)"
  shows "star P (a @ b) = map (\<lambda>n. (take n a, drop n a @ b)) (rev [0 ..< Suc (length a)])"
proof -
  have "takeWhile P b = []" using assms(2) by (cases b) auto
  then have tw: "takeWhile P (a @ b) = a"
    using assms(1) by (simp add: takeWhile_append2 list_all_iff)
  show ?thesis
    unfolding star_def tw by (rule map_cong) (auto simp del: upt_Suc)
qed

lemma lit_mismatch:
  assumes "l \<noteq> []" and "hd l \<noteq> c"
  shows "lit l (c # s) = []"
  using assms by (cases l) (auto simp: lit_def)

lemma lit_append [simp]: "lit l (l @ r) = [r]"
  by (simp add: lit_def)

lemma star_then_lit:
  assumes "list_all P a" and "l \<noteq> []" and "\<not> P (hd l)"
  shows "List.bind (star P (a @ l @ r)) (\<lambda>(x, rest). List.bind (lit l rest) (k x)) = k a r"
proof -
  let ?g = "\<lambda>(x, rest). List.bind (lit l rest) (k x)"
  let ?f = "\<lambda>n. (take n a, drop n a @ l @ r)"
  have hd: "l @ r = [] \<or> \<not> P (hd (l @ r))" using assms(2,3) by simp
  have early: "?g (?f n) = []" if "n < length a" for n
  proof -
    from that obtain c cs where d: "drop n a = c # cs" by (cases "drop n a") auto
    then have "c \<in> set a" by (metis in_set_dropD list.set_intros(1))
    then have "P c" using assms(1) by (simp add: list_all_iff)
    then have "hd l \<noteq> c" using assms(3) by auto
    then show ?thesis using d assms(2) by (simp add: lit_mismatch)
  qed
  have "List.bind (star P (a @ l @ r)) ?g
        = ?g (?f (length a)) @ concat (map (\<lambda>n. ?g (?f n)) (rev [0 ..< length a]))"
    by (simp add: star_append [OF assms(1) hd] List.bind_def o_def)
  also have "concat (map (\<lambda>n. ?g (?f n)) (rev [0 ..< length a])) = []"
    using early by simp
  finally show ?thesis by simp
qed

lemma star_head:
  assumes "list_all P a"
  shows "\<exists>rest. List.bind (star P a) (\<lambda>(x, _). [f x]) = f a # rest"
proof -
  have "star P (a @ []) = map (\<lambda>n. (take n a, drop n a @ [])) (rev [0 ..< Suc (length a)])"
    by (rule star_append) (use assms in simp_all)
  then show ?thesis by (simp add: List.bind_def)
qed

lemma first_match_head:
  assumes "m s = x # rest"
  shows "first_match m s = Some x"
proof -
  have eq: "[0 ..< Suc (length s)] = 0 # [Suc 0 ..< Suc (length s)]"
    by (rule upt_conv_Cons) simp
  show ?thesis
    unfolding first_match_def eq using assms by (simp del: upt_Suc)
qed

lemma diff_regex_shape:
  assumes "list_all (\<lambda>c. c \<noteq> CHR '':'') label"
    and "list_all dot msg" and "list_all dot actual" and "list_all dot expected"
  shows "first_match diff_regex
           (label @ '': '' @ msg @ (LF # ''Passed in:'' @ [LF]) @ actual
              @ (LF # ''Expected:'' @ [LF]) @ expected)
         = Some (msg, actual, expected)"
proof -
  define p0 :: string where "p0 = '': ''"
  define p1 where "p1 = LF # ''Passed in:'' @ [LF]"
  define p2 where "p2 = LF # ''Expected:'' @ [LF]"
  have p0: "p0 \<noteq> []" "\<not> hd p0 \<noteq> CHR '':''" by (simp_all add: p0_def)
  have p1: "p1 \<noteq> []" "\<not> dot (hd p1)" by (simp_all add: p1_def dot_def)
  have p2: "p2 \<noteq> []" "\<not> dot (hd p2)" by (simp_all add: p2_def dot_def)
  have "diff_regex (label @ p0 @ msg @ p1 @ actual @ p2 @ expected) =
          List.bind (star dot expected) (\<lambda>(expected', _). [(msg, actual, expected')])"
    unfolding diff_regex_def p0_def [symmetric] p1_def [symmetric] p2_def [symmetric]
    apply (subst star_then_lit [OF assms(1) p0])
    apply (subst star_then_lit [OF assms(2) p1])
    apply (subst star_then_lit [OF assms(3) p2])
    apply (rule refl)
    done
  moreover obtain rest where
    "List.bind (star dot expected) (\<lambda>(expected', _). [(msg, actual, expected')])
       = (msg, actual, expected) # rest"
    using star_head [OF assms(4), of "\<lambda>x. (msg, actual, x)"] by blast
  ultimately have "first_match diff_regex (label @ p0 @ msg @ p1 @ actual @ p2 @ expected)
                   = Some (msg, actual, expected)"
    by (simp add: first_match_head)
  then show ?thesis by (simp add: p0_def p1_def p2_def)
qed

section \<open>Unfolding a run\<close>

lemma run_Cons_fst:
  "fst (run e rs (ev # evs)) = fst (step e rs ev) @ fst (run e (snd (step e rs ev)) evs)"
  by (simp split: prod.splits)

lemma run_Cons_snd:
  "snd (run e rs (ev # evs)) = snd (run e (snd (step e rs ev)) evs)"
  by (simp split: prod.splits)

lemma run_append_fst:
  "fst (run e rs (xs @ ys)) = fst (run e rs xs) @ fst (run e (snd (run e rs xs)) ys)"
  by (induction xs arbitrary: rs) (simp_all add: run_Cons_fst run_Cons_snd del: run.simps(2))

lemma run_append_snd:
  "snd (run e rs (xs @ ys)) = snd (run e (snd (run e rs xs)) ys)"
  by (induction xs arbitrary: rs) (simp_all add: run_Cons_snd del: run.simps(2))

lemma step_not_line:
  assumes "\<And>l. ev \<noteq> LineRead l"
  shows "rs_session (snd (step e rs ev)) = rs_session rs"
  using assms by (cases ev) (auto simp: step_def handlers_def split: prod.splits)

lemma step_line:
  "rs_session (snd (step e rs (LineRead l))) = final (onLine e (rs_session rs) l)"
  by (simp add: step_def handlers_def watch_def Let_def)

lemma watch_all_fst:
  "fst (watch_all w (ev # evs)) = fst (watch w ev) @ fst (watch_all (snd (watch w ev)) evs)"
  by (simp split: prod.splits)

lemma watch_all_snd:
  "snd (watch_all w (ev # evs)) = snd (watch_all (snd (watch w ev)) evs)"
  by (simp split: prod.splits)

lemma run_watchdog:
  "rs_watchdog (snd (run e rs evs)) = snd (watch_all (rs_watchdog rs) evs)"
proof (induction evs arbitrary: rs)
  case Nil
  then show ?case by simp
next
  case (Cons ev evs)
  have "rs_watchdog (snd (step e rs ev)) = snd (watch (rs_watchdog rs) ev)"
    by (simp add: step_def case_prod_beta)
  with Cons.IH [of "snd (step e rs ev)"] show ?case
    by (simp add: run_Cons_snd watch_all_snd del: run.simps(2) watch_all.simps(2))
qed

section \<open>The sample run, evaluated\<close>

lemma structured_payload:
  "startsWith (structured p) MAGIC" "substring (structured p) (length MAGIC + 1) = p"
  "substring (structured p) (Suc (length MAGIC)) = p"
  by (simp_all add: startsWith_def substring_def structured_def MAGIC_def)

lemma decoded_structured: "decoded e (structured p) = JSON_parse e p"
  by (simp add: decoded_def structured_payload)

lemma sample_parse_values:
  "sample_parse payload_start
     = Some (blank_report\<lparr>rtype := Some ''testStart'', test := Some ''suite a''\<rparr>)"
  "sample_parse payload_success
     = Some (blank_report\<lparr>rtype := Some ''testEnd'', test := Some ''suite a'',
                             status := Some ''success''\<rparr>)"
  "sample_parse payload_failure
     = Some (blank_report\<lparr>rtype := Some ''testEnd'', test := Some ''suite a'',
                             status := Some ''failure'', line := Some 5\<rparr>)"
  "sample_parse payload_error
     = Some (blank_report\<lparr>rtype := Some ''error'', test := Some ''suite a''\<rparr>)"
  "sample_parse payload_stray
     = Some (blank_report\<lparr>rtype := Some ''testStart'', test := Some ''suite z''\<rparr>)"
  "sample_parse payload_other
     = Some (blank_report\<lparr>rtype := Some ''suiteEnd'', test := Some ''suite a''\<rparr>)"
  "sample_parse ''{oops'' = None"
  by (simp_all add: sample_parse_def payload_start_def payload_success_def payload_failure_def
        payload_error_def payload_stray_def payload_other_def quoted_def dquote_def)

lemma sample_env_fields:
  "JSON_parse (sample_env os) = sample_parse"
  "getTest (sample_env os) ''suite a'' = Some sample_item"
  "getTest (sample_env os) ''suite z'' = None"
  "platform (sample_env os) = os"
  "idleTimeoutMs (sample_env os) = 120000"
  by (simp_all add: sample_env_def)

lemmas sample_defs =
  sample_env_def sample_parse_def payload_start_def payload_success_def
  payload_failure_def payload_error_def payload_stray_def payload_other_def quoted_def
  structured_def MAGIC_def blank_report_def

lemma sample_start:
  "onLine (sample_env os) s (structured payload_start)
     = returns [AppendOutput (''[Busted] '' @ glyph_play @ '' Run: suite a'' @ CRLF) None None,
                Started sample_item] (s\<lparr>currentTest := Some sample_item\<rparr>)"
  by (simp add: onLine_def startsWith_def substring_def sample_defs split_pop_def
        backslash_def resultConcole_def)

lemma string_of_nat_digit: "n < 10 \<Longrightarrow> string_of_nat n = [digit_char n]"
  by (simp add: string_of_nat.simps)

section \<open>The argument vector\<close>

text \<open>
  Claim C7, as the code has it. Each filter name gives one argument \<^verbatim>\<open>--filter=\<close>
  followed by the name as \<^verbatim>\<open>quoteIfWindows\<close> returns it; these arguments come first,
  in the order of the filter, before \<^verbatim>\<open>-o\<close>, the reporter path, the extra arguments
  and the files. On a platform other than \<^verbatim>\<open>win32\<close> the name is unchanged. On
  \<^verbatim>\<open>win32\<close> a name that already starts and ends with a double quote, with no line
  break between them, is unchanged; every other name, with or without a space or a
  double quote in it, is put between double quotes, each double quote inside it getting
  a backslash in front (so a name without double quotes is only wrapped).
\<close>

theorem C7_filter_quoting:
  "(p \<noteq> ''win32'' \<longrightarrow> quoteIfWindows p s = s)
   \<and> (list_all dot mid \<longrightarrow>
        quoteIfWindows ''win32'' ([dquote] @ mid @ [dquote]) = [dquote] @ mid @ [dquote])
   \<and> ((\<nexists>mid'. s = [dquote] @ mid' @ [dquote] \<and> list_all dot mid') \<longrightarrow>
        quoteIfWindows ''win32'' s = [dquote] @ escape_quotes s @ [dquote])
   \<and> (dquote \<notin> set s \<longrightarrow> escape_quotes s = s)
   \<and> (i < length names \<longrightarrow>
        execute_args e names files ! i
          = ''--filter='' @ quoteIfWindows (platform e) (names ! i))
   \<and> (platform e \<noteq> ''win32'' \<longrightarrow>
        execute_args e names files
          = map (\<lambda>name. ''--filter='' @ name) names
              @ [''-o'', reporterPath e] @ getArguments e @ files)
   \<and> length (execute_args e names files)
       = length names + 2 + length (getArguments e) + length files"
proof -
  have a: "quoted_regex ([dquote] @ mid @ [dquote]) \<noteq> []" if "list_all dot mid"
    using that quoted_regex_iff by blast
  have b: "quoted_regex s = []"
    if "\<nexists>mid'. s = [dquote] @ mid' @ [dquote] \<and> list_all dot mid'"
    using that quoted_regex_iff by blast
  have c: "escape_quotes s = s" if "dquote \<notin> set s"
    using that unfolding escape_quotes_def by (induction s) auto
  have d: "execute_args e names files ! i
             = ''--filter='' @ quoteIfWindows (platform e) (names ! i)"
    if "i < length names"
    using that by (simp add: execute_args_def nth_append)
  have e: "execute_args e names files
             = map (\<lambda>name. ''--filter='' @ name) names
                 @ [''-o'', reporterPath e] @ getArguments e @ files"
    if "platform e \<noteq> ''win32''"
    using that by (simp add: execute_args_def quoteIfWindows_def)
  have f: "length (execute_args e names files)
             = length names + 2 + length (getArguments e) + length files"
    by (simp add: execute_args_def)
  show ?thesis
    using a b c d e f by (simp add: quoteIfWindows_def)
qed

text \<open>
  Claim C7 as stated quotes on \<^verbatim>\<open>win32\<close> only a token with a space or a double quote
  in it. The name \<^verbatim>\<open>abc\<close> has neither and is quoted.
\<close>

theorem C7_win32_quotes_plain_name:
  "quoteIfWindows ''win32'' ''abc'' = [dquote] @ ''abc'' @ [dquote]
   \<and> CHR '' '' \<notin> set ''abc'' \<and> dquote \<notin> set ''abc''"
  by (simp add: quoteIfWindows_def quoted_regex_def lit_def dquote_def escape_quotes_def)

text \<open>
  The names \<^verbatim>\<open>a b\<close>, \<^verbatim>\<open>"a b"\<close>, \<^verbatim>\<open>a"b\<close> and \<^verbatim>\<open>abc\<close>, and an argument vector
  on \<^verbatim>\<open>win32\<close>.
\<close>

theorem C7_filter_quoting_witness:
  "''linux'' \<noteq> ''win32'' \<and> quoteIfWindows ''linux'' ''a b'' = ''a b''
   \<and> list_all dot ''a b''
   \<and> quoteIfWindows ''win32'' ([dquote] @ ''a b'' @ [dquote]) = [dquote] @ ''a b'' @ [dquote]
   \<and> (\<nexists>mid'. ''a'' @ [dquote] @ ''b'' = [dquote] @ mid' @ [dquote] \<and> list_all dot mid')
   \<and> quoteIfWindows ''win32'' (''a'' @ [dquote] @ ''b'')
       = [dquote] @ ''a'' @ [backslash, dquote] @ ''b'' @ [dquote]
   \<and> dquote \<notin> set ''abc'' \<and> escape_quotes ''abc'' = ''abc''
   \<and> execute_args (sample_env ''win32'') [''abc'', ''a b''] [''spec/a_spec.lua''] ! 1
       = ''--filter='' @ [dquote] @ ''a b'' @ [dquote]
   \<and> execute_args (sample_env ''linux'') [''abc'', ''a b''] [''spec/a_spec.lua'']
       = [''--filter=abc'', ''--filter=a b'', ''-o'', ''res/reporter.lua'', ''spec/a_spec.lua'']
   \<and> length (execute_args (sample_env ''win32'') [''abc'', ''a b''] [''spec/a_spec.lua'']) = 5"
proof -
  have h1: "''linux'' \<noteq> ''win32''" by simp
  have h2: "list_all dot ''a b''" by (simp add: dot_def LF_def CR_def)
  have h3: "\<nexists>mid'. ''a'' @ [dquote] @ ''b'' = [dquote] @ mid' @ [dquote] \<and> list_all dot mid'"
    by (simp add: dquote_def)
  have h4: "dquote \<notin> set ''abc''" by (simp add: dquote_def)
  have h5: "\<nexists>mid'. ''abc'' = [dquote] @ mid' @ [dquote] \<and> list_all dot mid'"
    by (simp add: dquote_def)
  have h6: "\<nexists>mid'. ''a b'' = [dquote] @ mid' @ [dquote] \<and> list_all dot mid'"
    by (simp add: dquote_def)
  have e1: "escape_quotes (''a'' @ [dquote] @ ''b'') = ''a'' @ [backslash, dquote] @ ''b''"
    by (simp add: escape_quotes_def dquote_def)
  have e2: "dquote \<notin> set ''a b''" by (simp add: dquote_def)
  show ?thesis
    using h1 h2 h3 h4 h5 h6 e1 e2
      C7_filter_quoting [of "''linux''" "''a b''" "''a b''" 1 "[''abc'', ''a b'']"
                           "sample_env ''win32''" "[''spec/a_spec.lua'']"]
      C7_filter_quoting [of "''win32''" "''a'' @ [dquote] @ ''b''" "[]" 0 "[''abc'', ''a b'']"
                           "sample_env ''linux''" "[''spec/a_spec.lua'']"]
      C7_filter_quoting [of "''win32''" "''abc''" "[]" 0 "[]" "sample_env ''linux''" "[]"]
      C7_filter_quoting [of "''win32''" "''a b''" "[]" 0 "[]" "sample_env ''linux''" "[]"]
    by (simp add: sample_env_def)
qed

section \<open>The error message of a failed test\<close>

text \<open>
  Claim C6, as the code has it. The message built for a \<^verbatim>\<open>testEnd\<close> report with status
  \<^verbatim>\<open>failure\<close> or \<^verbatim>\<open>error\<close>, which is what \<^verbatim>\<open>run.failed\<close> and \<^verbatim>\<open>run.errored\<close> get:
  when the report has no message, or an empty one, it is exactly \<^verbatim>\<open>Unknown error\<close>,
  with no location. When the report has a message that is not empty: if the message
  matches the diff pattern, the result is a diff whose text is the group \<open>msg\<close>, whose
  expected side is the group after \<^verbatim>\<open>Expected:\<close> and whose actual side is the group
  after \<^verbatim>\<open>Passed in:\<close>; otherwise it is a flat message with the original text; in both
  cases a location at line \<open>n - 1\<close>, column 0, is attached when the test has a URI
  and the report has a line \<open>n\<close> from 1 on, and none when the URI or the line is missing.
  A message made of a label without a colon, \<^verbatim>\<open>: \<close>, and three one-line parts
  separated by \<^verbatim>\<open>Passed in:\<close> and \<^verbatim>\<open>Expected:\<close> on lines of their own matches the
  pattern, with these parts as its groups.
\<close>

theorem C6_error_message_construction:
  "(message r = None \<or> message r = Some [] \<longrightarrow>
      getErrorMessage t r = TestMessage ''Unknown error'')
   \<and> (message r = Some m \<and> m \<noteq> [] \<and> first_match diff_regex m = Some (msg, actl, expd) \<longrightarrow>
        tm_message (getErrorMessage t r) = msg
        \<and> expectedOutput (getErrorMessage t r) = Some expd
        \<and> actualOutput (getErrorMessage t r) = Some actl)
   \<and> (message r = Some m \<and> m \<noteq> [] \<and> first_match diff_regex m = None \<longrightarrow>
        tm_message (getErrorMessage t r) = m
        \<and> expectedOutput (getErrorMessage t r) = None
        \<and> actualOutput (getErrorMessage t r) = None)
   \<and> (message r = Some m \<and> m \<noteq> [] \<and> uri t = Some u \<and> line r = Some n \<and> 1 \<le> n \<longrightarrow>
        location (getErrorMessage t r) = Some (u, n - 1, 0))
   \<and> (message r = Some m \<and> m \<noteq> [] \<and> (uri t = None \<or> line r = None) \<longrightarrow>
        location (getErrorMessage t r) = None)
   \<and> (list_all (\<lambda>c. c \<noteq> CHR '':'') label \<and> list_all dot msg \<and> list_all dot actl
        \<and> list_all dot expd \<longrightarrow>
        first_match diff_regex
          (label @ '': '' @ msg @ (LF # ''Passed in:'' @ [LF]) @ actl
             @ (LF # ''Expected:'' @ [LF]) @ expd)
        = Some (msg, actl, expd))
   \<and> (status r = Some ''failure'' \<longrightarrow>
        fst (testEnd_dispatch s t r) = [Failed t (getErrorMessage t r) (duration r)])
   \<and> (status r = Some ''error'' \<longrightarrow>
        fst (testEnd_dispatch s t r) = [Errored t (getErrorMessage t r) (duration r)])"
proof -
  have shape: "first_match diff_regex
          (label @ '': '' @ msg @ (LF # ''Passed in:'' @ [LF]) @ actl
             @ (LF # ''Expected:'' @ [LF]) @ expd)
        = Some (msg, actl, expd)"
    if "list_all (\<lambda>c. c \<noteq> CHR '':'') label" "list_all dot msg" "list_all dot actl"
       "list_all dot expd"
    using that by (rule diff_regex_shape)
  have unknown: "getErrorMessage t r = TestMessage ''Unknown error''"
    if "message r = None \<or> message r = Some []"
    using that by (auto simp: getErrorMessage_def)
  have diff: "tm_message (getErrorMessage t r) = msg
        \<and> expectedOutput (getErrorMessage t r) = Some expd
        \<and> actualOutput (getErrorMessage t r) = Some actl"
    if "message r = Some m" "m \<noteq> []" "first_match diff_regex m = Some (msg, actl, expd)"
    using that
    by (simp add: getErrorMessage_def TestMessage_diff_def Let_def split: option.splits)
  have flat: "tm_message (getErrorMessage t r) = m
        \<and> expectedOutput (getErrorMessage t r) = None
        \<and> actualOutput (getErrorMessage t r) = None"
    if "message r = Some m" "m \<noteq> []" "first_match diff_regex m = None"
    using that
    by (simp add: getErrorMessage_def TestMessage_def Let_def split: option.splits)
  have loc: "location (getErrorMessage t r) = Some (u, n - 1, 0)"
    if "message r = Some m" "m \<noteq> []" "uri t = Some u" "line r = Some n" "1 \<le> n"
    using that
    by (simp add: getErrorMessage_def Let_def split: option.splits)
  have noloc: "location (getErrorMessage t r) = None"
    if "message r = Some m" "m \<noteq> []" "uri t = None \<or> line r = None"
    using that
    by (auto simp: getErrorMessage_def Let_def TestMessage_def TestMessage_diff_def
             split: option.splits)
  have disp: "status r = Some ''failure'' \<longrightarrow>
        fst (testEnd_dispatch s t r) = [Failed t (getErrorMessage t r) (duration r)]"
       "status r = Some ''error'' \<longrightarrow>
        fst (testEnd_dispatch s t r) = [Errored t (getErrorMessage t r) (duration r)]"
    by (simp_all add: testEnd_dispatch_def)
  show ?thesis
    using shape unknown diff flat loc noloc disp by blast
qed

text \<open>
  Claim C6 as stated attaches a location whenever the test has a URI and the report a
  line. A \<^verbatim>\<open>failure\<close> report with line 5 and no message, on a test with a URI: the
  message is \<^verbatim>\<open>Unknown error\<close> and has no location.
\<close>

theorem C6_no_location_without_message:
  "getErrorMessage sample_item (blank_report\<lparr>status := Some ''failure'', line := Some 5\<rparr>)
     = \<lparr>tm_message = ''Unknown error'', expectedOutput = None, actualOutput = None,
        location = None\<rparr>
   \<and> uri sample_item = Some ''file:///spec/a_spec.lua''
   \<and> line (blank_report\<lparr>status := Some ''failure'', line := Some 5\<rparr>) = Some 5"
  by (simp add: getErrorMessage_def blank_report_def TestMessage_def sample_item_def)

text \<open>
  The diff message of the protocol's example, at line 5 of a test with a URI; the flat
  message \<^verbatim>\<open>boom\<close>; a report without message.
\<close>

theorem C6_error_message_construction_witness:
  "message blank_report = None
   \<and> getErrorMessage sample_item blank_report = TestMessage ''Unknown error''
   \<and> message (blank_report\<lparr>message := Some sample_diff, line := Some 5\<rparr>) = Some sample_diff
   \<and> sample_diff \<noteq> []
   \<and> list_all (\<lambda>c. c \<noteq> CHR '':'') ''AssertionError'' \<and> list_all dot ''msg''
   \<and> list_all dot ''A'' \<and> list_all dot ''B''
   \<and> first_match diff_regex sample_diff = Some (''msg'', ''A'', ''B'')
   \<and> tm_message (getErrorMessage sample_item
         (blank_report\<lparr>message := Some sample_diff, line := Some 5\<rparr>)) = ''msg''
   \<and> expectedOutput (getErrorMessage sample_item
         (blank_report\<lparr>message := Some sample_diff, line := Some 5\<rparr>)) = Some ''B''
   \<and> actualOutput (getErrorMessage sample_item
         (blank_report\<lparr>message := Some sample_diff, line := Some 5\<rparr>)) = Some ''A''
   \<and> location (getErrorMessage sample_item
         (blank_report\<lparr>message := Some sample_diff, line := Some 5\<rparr>))
       = Some (''file:///spec/a_spec.lua'', 4, 0)
   \<and> first_match diff_regex ''boom'' = None
   \<and> tm_message (getErrorMessage sample_item (blank_report\<lparr>message := Some ''boom''\<rparr>))
       = ''boom''
   \<and> expectedOutput (getErrorMessage sample_item (blank_report\<lparr>message := Some ''boom''\<rparr>))
       = None
   \<and> location (getErrorMessage sample_item (blank_report\<lparr>message := Some ''boom''\<rparr>))
       = None
   \<and> fst (testEnd_dispatch sample_session sample_item
             (blank_report\<lparr>status := Some ''failure''\<rparr>))
       = [Failed sample_item (TestMessage ''Unknown error'') None]
   \<and> fst (testEnd_dispatch sample_session sample_item
             (blank_report\<lparr>status := Some ''error''\<rparr>))
       = [Errored sample_item (TestMessage ''Unknown error'') None]"
proof -
  let ?r1 = "blank_report\<lparr>message := Some sample_diff, line := Some 5\<rparr>"
  let ?r2 = "blank_report\<lparr>message := Some ''boom''\<rparr>"
  have b: "message blank_report = None" "line blank_report = None"
    "duration blank_report = None"
    by (simp_all add: blank_report_def)
  have sd: "sample_diff = ''AssertionError'' @ '': '' @ ''msg'' @ (LF # ''Passed in:'' @ [LF])
              @ ''A'' @ (LF # ''Expected:'' @ [LF]) @ ''B''"
    by (simp add: sample_diff_def)
  have ne: "sample_diff \<noteq> []" by (simp add: sample_diff_def)
  have cls: "list_all (\<lambda>c. c \<noteq> CHR '':'') ''AssertionError''" "list_all dot ''msg''"
    "list_all dot ''A''" "list_all dot ''B''"
    by (simp_all add: dot_def LF_def CR_def)
  have boom: "first_match diff_regex ''boom'' = None" by code_simp
  have u: "uri sample_item = Some ''file:///spec/a_spec.lua''" by (simp add: sample_item_def)
  note t1 = C6_error_message_construction [of ?r1 sample_item sample_diff "''msg''" "''A''" "''B''"
                   "''file:///spec/a_spec.lua''" 5 "''AssertionError''" sample_session]
  note t2 = C6_error_message_construction [of ?r2 sample_item "''boom''" "''msg''" "''A''" "''B''"
                   "''file:///spec/a_spec.lua''" 5 "''AssertionError''" sample_session]
  note t3 = C6_error_message_construction [of "blank_report\<lparr>status := Some ''failure''\<rparr>" sample_item "[]" "[]" "[]" "[]"
                   "[]" 1 "[]" sample_session]
  note t4 = C6_error_message_construction [of "blank_report\<lparr>status := Some ''error''\<rparr>" sample_item "[]" "[]" "[]" "[]"
                   "[]" 1 "[]" sample_session]
  note t5 = C6_error_message_construction [of blank_report sample_item "[]" "[]" "[]" "[]" "[]" 1 "[]" sample_session]
  have m: "first_match diff_regex sample_diff = Some (''msg'', ''A'', ''B'')"
    using t1 cls unfolding sd by blast
  show ?thesis
    using b ne cls boom u m t1 t2 t3 t4 t5 by simp
qed

section \<open>Lines\<close>

text \<open>
  Claim C9. A line that does not start with the marker is forwarded to the run sink as
  one output: the line itself followed by \<^verbatim>\<open>\r\n\<close>, without location, attributed to
  the active test when there is one and to no test otherwise. The handler also logs the
  line at debug level, changes no variable and returns normally.
\<close>

theorem C9_passthrough_forwarded_once:
  assumes "\<not> startsWith l MAGIC"
  shows "onLine e s l = returns [AppendOutput (l @ CRLF) None (currentTest s), LoggerDebug l] s
     \<and> sink_outputs (emitted (onLine e s l)) = [(l @ CRLF, None, currentTest s)]"
  using assms by (simp add: onLine_def resultConcole_def returns_def)

text \<open>A passthrough line while \<open>sample_item\<close> is active.\<close>

theorem C9_passthrough_forwarded_once_witness:
  "\<not> startsWith ''ok 1 - adds'' MAGIC
   \<and> onLine (sample_env ''linux'') sample_session ''ok 1 - adds''
       = returns [AppendOutput (''ok 1 - adds'' @ CRLF) None (Some sample_item),
                  LoggerDebug ''ok 1 - adds''] sample_session
   \<and> sink_outputs (emitted (onLine (sample_env ''linux'') sample_session ''ok 1 - adds''))
       = [(''ok 1 - adds'' @ CRLF, None, Some sample_item)]"
proof -
  have h: "\<not> startsWith ''ok 1 - adds'' MAGIC" by (simp add: startsWith_def MAGIC_def)
  have c: "currentTest sample_session = Some sample_item" by (simp add: sample_session_def)
  show ?thesis
    using h c C9_passthrough_forwarded_once [OF h, of "sample_env ''linux''" sample_session] by (simp add: returns_def)
qed

text \<open>
  Claim C1, as the code has it. A line that starts with the marker and whose payload the
  decoder rejects makes the line handler throw the decoder's \<^verbatim>\<open>SyntaxError\<close>: the
  handler sends nothing to the run sink, logs nothing and leaves the counters and the
  active test as they were. The exception leaves the handler uncaught. Whatever events
  are delivered after it are handled exactly as if the corrupt line had not arrived.
\<close>

theorem C1_corrupt_line_raises:
  assumes "startsWith l MAGIC"
    and "JSON_parse e (substring l (length MAGIC + 1)) = None"
  shows "onLine e s l = throws [] s SyntaxError
     \<and> run e rs (LineRead l # evs)
         = (Uncaught SyntaxError # fst (run e rs evs), snd (run e rs evs))"
proof -
  have a: "onLine e s l = throws [] s SyntaxError" for s
    using assms by (simp add: onLine_def)
  have "step e rs (LineRead l) = ([Uncaught SyntaxError], rs)"
    by (simp add: step_def watch_def handlers_def a throws_def)
  then show ?thesis using a by (simp split: prod.splits)
qed

text \<open>
  Claim C1 as stated asks for the corrupt line to be classified, logged and passed over.
  On the line \<^verbatim>\<open>[VSCODE-BUSTED-REPORT] {oops\<close> the handler emits nothing, so no log
  entry either, and throws.
\<close>

theorem C1_corrupt_line_not_contained:
  "emitted (onLine (sample_env ''linux'') sample_session (structured ''{oops'')) = []
   \<and> raised (onLine (sample_env ''linux'') sample_session (structured ''{oops''))
       = Some SyntaxError"
  by (simp add: onLine_def startsWith_def structured_def MAGIC_def substring_def
        sample_env_def sample_parse_def payload_start_def payload_success_def
        payload_failure_def payload_error_def payload_stray_def payload_other_def quoted_def throws_def)

text \<open>
  A corrupt line followed by a \<^verbatim>\<open>testEnd\<close> with status \<^verbatim>\<open>success\<close>: the exception,
  then the end line and \<^verbatim>\<open>run.passed\<close>.
\<close>

theorem C1_corrupt_line_raises_witness:
  "startsWith (structured ''{oops'') MAGIC
   \<and> JSON_parse (sample_env ''linux'') (substring (structured ''{oops'') (length MAGIC + 1))
       = None
   \<and> onLine (sample_env ''linux'') sample_session (structured ''{oops'')
       = throws [] sample_session SyntaxError
   \<and> run (sample_env ''linux'') (execute_start (sample_env ''linux'') 0)
         [LineRead (structured ''{oops''), LineRead (structured payload_success)]
       = ([Uncaught SyntaxError,
           AppendOutput (''[Busted] '' @ glyph_stop @ '' End: suite a (success)'' @ CRLF)
             None None,
           Passed sample_item None],
          \<lparr>rs_session = \<lparr>cntSuccessTests = 1, cntFailTests = 0, currentTest = None\<rparr>,
           rs_watchdog = withIdleWatchdog 120000 None 0\<rparr>)"
proof -
  have h1: "startsWith (structured ''{oops'') MAGIC"
    by (simp add: startsWith_def structured_def MAGIC_def)
  have h2: "JSON_parse (sample_env ''linux'')
              (substring (structured ''{oops'') (length MAGIC + 1)) = None"
    by (simp add: structured_def MAGIC_def substring_def
        sample_env_def sample_parse_def payload_start_def payload_success_def
        payload_failure_def payload_error_def payload_stray_def payload_other_def quoted_def)
  have rest: "run (sample_env ''linux'') (execute_start (sample_env ''linux'') 0)
                [LineRead (structured payload_success)]
       = ([AppendOutput (''[Busted] '' @ glyph_stop @ '' End: suite a (success)'' @ CRLF)
             None None,
           Passed sample_item None],
          \<lparr>rs_session = \<lparr>cntSuccessTests = 1, cntFailTests = 0, currentTest = None\<rparr>,
           rs_watchdog = withIdleWatchdog 120000 None 0\<rparr>)"
    by code_simp
  show ?thesis
    using h1 h2 rest
      C1_corrupt_line_raises [OF h1 h2, of sample_session "execute_start (sample_env ''linux'') 0"
            "[LineRead (structured payload_success)]"]
    by simp
qed

text \<open>
  Claim C8 asks that a report of kind \<^verbatim>\<open>error\<close> never makes the line handler fail,
  also when it has no message. On the line
  \<^verbatim>\<open>[VSCODE-BUSTED-REPORT] {"type":"error","test":"suite a"}\<close> the handler increments
  the fail counter and then throws a \<^verbatim>\<open>TypeError\<close> (\<^verbatim>\<open>report.message.replace\<close> on
  \<^verbatim>\<open>undefined\<close>): it does not return normally and sends nothing to the run sink.
\<close>

theorem C8_error_without_message_raises:
  "onLine (sample_env ''linux'') sample_session (structured payload_error)
     = throws [] (sample_session\<lparr>cntFailTests := 1\<rparr>) TypeError"
  by code_simp

section \<open>Counters\<close>

lemma testEnd_dispatch_currentTest:
  "currentTest (snd (testEnd_dispatch s t r)) = currentTest s"
  by (simp add: testEnd_dispatch_def)







section \<open>The active test\<close>

lemma onLine_keeps_none:
  assumes "\<not> is_resolved_testStart e l" and "currentTest s = None"
  shows "currentTest (final (onLine e s l)) = None"
  using assms
  by (auto simp: onLine_def is_resolved_testStart_def decoded_def returns_def throws_def
        Let_def case_prod_beta testEnd_dispatch_currentTest split: option.splits)

lemma run_keeps_none:
  assumes "\<forall>l \<in> set (lines_of evs). \<not> is_resolved_testStart e l"
    and "currentTest (rs_session rs) = None"
  shows "currentTest (rs_session (snd (run e rs evs))) = None"
  using assms
proof (induction evs arbitrary: rs)
  case Nil
  then show ?case by simp
next
  case (Cons ev evs)
  have rest: "\<forall>l \<in> set (lines_of evs). \<not> is_resolved_testStart e l"
    using Cons.prems(1) by (cases ev) simp_all
  have "currentTest (rs_session (snd (step e rs ev))) = None"
  proof (cases "\<exists>l. ev = LineRead l")
    case True
    then obtain l where ev: "ev = LineRead l" by blast
    with Cons.prems(1) have "\<not> is_resolved_testStart e l" by simp
    from onLine_keeps_none [OF this Cons.prems(2)] show ?thesis
      by (simp add: ev step_line)
  next
    case False
    then have "\<And>l. ev \<noteq> LineRead l" by blast
    from step_not_line [OF this, of e rs] Cons.prems(2) show ?thesis by simp
  qed
  from Cons.IH [OF rest this] show ?case
    by (simp add: run_Cons_snd del: run.simps(2))
qed

text \<open>
  Claim C10. For a structured line whose report names its test: a \<^verbatim>\<open>testEnd\<close> leaves
  no test active, whatever the active test was and whether or not the name resolves; a
  \<^verbatim>\<open>testStart\<close> whose name does not resolve leaves the active test as it was; and
  after a \<^verbatim>\<open>testEnd\<close>, followed by any events among which no line is a \<^verbatim>\<open>testStart\<close>
  that resolves, a passthrough line is forwarded attributed to no test.
\<close>

theorem C10_testEnd_clears_activeTest:
  assumes "startsWith l MAGIC"
    and "JSON_parse e (substring l (length MAGIC + 1)) = Some r"
    and "test r = Some name"
  shows "(rtype r = Some ''testEnd'' \<longrightarrow> currentTest (final (onLine e s l)) = None)
     \<and> (rtype r = Some ''testStart'' \<and> getTest e name = None \<longrightarrow>
          currentTest (final (onLine e s l)) = currentTest s)
     \<and> (rtype r = Some ''testEnd''
          \<and> (\<forall>l' \<in> set (lines_of evs). \<not> is_resolved_testStart e l')
          \<and> \<not> startsWith p MAGIC \<longrightarrow>
          fst (run e rs (LineRead l # evs @ [LineRead p]))
            = fst (run e rs (LineRead l # evs))
                @ [AppendOutput (p @ CRLF) None None, LoggerDebug p])"
proof -
  have clears: "currentTest (final (onLine e s l)) = None" if "rtype r = Some ''testEnd''" for s
    using assms that
    by (simp add: onLine_def returns_def Let_def case_prod_beta testEnd_dispatch_currentTest
          split: option.splits)
  have keeps: "currentTest (final (onLine e s l)) = currentTest s"
    if "rtype r = Some ''testStart''" "getTest e name = None"
    using assms that by (simp add: onLine_def returns_def)
  have after: "fst (run e rs (LineRead l # evs @ [LineRead p]))
            = fst (run e rs (LineRead l # evs))
                @ [AppendOutput (p @ CRLF) None None, LoggerDebug p]"
    if "rtype r = Some ''testEnd''"
      "\<forall>l' \<in> set (lines_of evs). \<not> is_resolved_testStart e l'"
      "\<not> startsWith p MAGIC"
  proof -
    let ?rs1 = "snd (step e rs (LineRead l))"
    let ?rs2 = "snd (run e ?rs1 evs)"
    have "currentTest (rs_session ?rs1) = None"
      using clears [OF that(1)] by (simp add: step_line)
    from run_keeps_none [OF that(2) this] have none: "currentTest (rs_session ?rs2) = None" .
    have "fst (step e ?rs2 (LineRead p)) = [AppendOutput (p @ CRLF) None None, LoggerDebug p]"
      using that(3) none
      by (simp add: step_def watch_def handlers_def onLine_def returns_def resultConcole_def)
    then have "fst (run e ?rs2 [LineRead p]) = [AppendOutput (p @ CRLF) None None, LoggerDebug p]"
      by (simp add: run_Cons_fst del: run.simps(2))
    moreover have "LineRead l # evs @ [LineRead p] = (LineRead l # evs) @ [LineRead p]" by simp
    ultimately show ?thesis
      by (simp only: run_append_fst run_Cons_snd)
  qed
  show ?thesis using clears keeps after by blast
qed

text \<open>
  A \<^verbatim>\<open>testEnd\<close> while \<open>sample_item\<close> is active, a \<^verbatim>\<open>testStart\<close> for a name that
  does not resolve, and a passthrough line after both.
\<close>

theorem C10_testEnd_clears_activeTest_witness:
  "startsWith (structured payload_success) MAGIC
   \<and> JSON_parse (sample_env ''linux'')
         (substring (structured payload_success) (length MAGIC + 1))
       = Some (blank_report\<lparr>rtype := Some ''testEnd'', test := Some ''suite a'',
                               status := Some ''success''\<rparr>)
   \<and> currentTest sample_session = Some sample_item
   \<and> currentTest (final (onLine (sample_env ''linux'') sample_session
         (structured payload_success))) = None
   \<and> getTest (sample_env ''linux'') ''suite z'' = None
   \<and> currentTest (final (onLine (sample_env ''linux'') sample_session
         (structured payload_stray))) = Some sample_item
   \<and> list_all (\<lambda>l. \<not> is_resolved_testStart (sample_env ''linux'') l)
         (lines_of [LineRead (structured payload_stray), StdoutData 3, LineRead ''ok 1 - adds''])
   \<and> \<not> startsWith ''ok 2 - subtracts'' MAGIC
   \<and> fst (run (sample_env ''linux'')
             \<lparr>rs_session = sample_session, rs_watchdog = withIdleWatchdog 120000 None 0\<rparr>
             (LineRead (structured payload_success)
                # [LineRead (structured payload_stray), StdoutData 3, LineRead ''ok 1 - adds'']
                @ [LineRead ''ok 2 - subtracts'']))
       = fst (run (sample_env ''linux'')
               \<lparr>rs_session = sample_session, rs_watchdog = withIdleWatchdog 120000 None 0\<rparr>
               (LineRead (structured payload_success)
                  # [LineRead (structured payload_stray), StdoutData 3,
                     LineRead ''ok 1 - adds'']))
           @ [AppendOutput (''ok 2 - subtracts'' @ CRLF) None None,
              LoggerDebug ''ok 2 - subtracts'']"
proof -
  let ?e = "sample_env ''linux''"
  let ?evs = "[LineRead (structured payload_stray), StdoutData 3, LineRead ''ok 1 - adds'']"
  have a: "startsWith (structured payload_success) MAGIC"
    "startsWith (structured payload_stray) MAGIC"
    by (rule structured_payload)+
  have b: "JSON_parse ?e (substring (structured payload_success) (length MAGIC + 1))
       = Some (blank_report\<lparr>rtype := Some ''testEnd'', test := Some ''suite a'',
                               status := Some ''success''\<rparr>)"
    "JSON_parse ?e (substring (structured payload_stray) (length MAGIC + 1))
       = Some (blank_report\<lparr>rtype := Some ''testStart'', test := Some ''suite z''\<rparr>)"
    by (simp_all only: structured_payload sample_env_fields sample_parse_values)
  have c: "test (blank_report\<lparr>rtype := Some ''testEnd'', test := Some ''suite a'',
                               status := Some ''success''\<rparr>) = Some ''suite a''"
    "test (blank_report\<lparr>rtype := Some ''testStart'', test := Some ''suite z''\<rparr>)
       = Some ''suite z''"
    by simp_all
  have pt: "\<not> startsWith ''ok 1 - adds'' MAGIC" "\<not> startsWith ''ok 2 - subtracts'' MAGIC"
    by (simp_all add: startsWith_def MAGIC_def)
  have dp: "decoded ?e ''ok 1 - adds'' = None" by (simp add: decoded_def pt)
  have d: "\<forall>l' \<in> set (lines_of ?evs). \<not> is_resolved_testStart ?e l'"
    by (simp add: is_resolved_testStart_def decoded_structured sample_env_fields
          sample_parse_values dp)
  have s: "currentTest sample_session = Some sample_item" by (simp add: sample_session_def)
  show ?thesis
    using a b pt d s sample_env_fields(3) [of "''linux''"]
      C10_testEnd_clears_activeTest [OF a(1) b(1) c(1), of sample_session ?evs "''ok 2 - subtracts''"
             "\<lparr>rs_session = sample_session, rs_watchdog = withIdleWatchdog 120000 None 0\<rparr>"]
      C10_testEnd_clears_activeTest [OF a(2) b(2) c(2), of sample_session "[]" "[]"
             "\<lparr>rs_session = sample_session, rs_watchdog = withIdleWatchdog 120000 None 0\<rparr>"]
    by (simp add: list_all_iff)
qed

section \<open>The watchdog\<close>

lemma watch_cleared:
  assumes "\<not> timer w"
  shows "fst (watch w ev) = [] \<and> \<not> timer (snd (watch w ev))"
  using assms by (cases ev) (simp_all add: watch_def tick_def bump_def clearInterval_def)

lemma watch_all_cleared:
  assumes "\<not> timer w"
  shows "fst (watch_all w evs) = [] \<and> \<not> timer (snd (watch_all w evs))"
  using assms
proof (induction evs arbitrary: w)
  case Nil
  then show ?case by simp
next
  case (Cons ev evs)
  from watch_cleared [OF Cons.prems, of ev] Cons.IH [of "snd (watch w ev)"]
  show ?case by (simp add: watch_all_fst watch_all_snd del: watch_all.simps(2))
qed

lemma watch_fires:
  "fst (watch w ev) = [] \<or>
   (\<not> timer (snd (watch w ev))
    \<and> length (filter (\<lambda>x. x = Kill) (fst (watch w ev))) = 1
    \<and> length (sink_outputs (fst (watch w ev))) = 1)"
  by (cases ev) (simp_all add: watch_def tick_def clearInterval_def split: option.splits)

lemma watch_all_once:
  "length (filter (\<lambda>x. x = Kill) (fst (watch_all w evs))) \<le> 1
   \<and> length (sink_outputs (fst (watch_all w evs))) \<le> 1"
proof (induction evs arbitrary: w)
  case Nil
  then show ?case by simp
next
  case (Cons ev evs)
  from watch_fires [of w ev] show ?case
  proof
    assume "fst (watch w ev) = []"
    then show ?thesis
      using Cons.IH [of "snd (watch w ev)"]
      by (simp add: watch_all_fst del: watch_all.simps(2))
  next
    assume f: "\<not> timer (snd (watch w ev))
      \<and> length (filter (\<lambda>x. x = Kill) (fst (watch w ev))) = 1
      \<and> length (sink_outputs (fst (watch w ev))) = 1"
    then have "fst (watch_all (snd (watch w ev)) evs) = []"
      using watch_all_cleared by blast
    then show ?thesis
      using f by (simp add: watch_all_fst del: watch_all.simps(2))
  qed
qed

text \<open>
  Claim C4. Over any sequence of events a watchdog calls \<^verbatim>\<open>child.kill()\<close> at most once
  and writes at most one timeout line. When its timer ticks while set and the idle time
  is exceeded, it writes the timeout line, marks its test (if it has one) as errored,
  kills the child, and clears the timer; nothing follows from later events. A tick
  within the idle time does nothing. After a \<^verbatim>\<open>close\<close> or \<^verbatim>\<open>error\<close> event the timer
  is cleared and no later event makes the watchdog act. A cleared watchdog stays silent,
  and clearing it again changes nothing.
\<close>

theorem C4_watchdog_fires_at_most_once:
  "length (filter (\<lambda>x. x = Kill) (fst (watch_all w evs))) \<le> 1
   \<and> length (sink_outputs (fst (watch_all w evs))) \<le> 1
   \<and> (timer w \<and> ms w < now - last_t w \<longrightarrow>
        watch_all w (TimerTick now # evs)
          = ([AppendOutput (timeout_text (ms w) @ CRLF) None (wd_currentTest w)]
               @ (case wd_currentTest w of
                    None \<Rightarrow> []
                  | Some t \<Rightarrow> [Errored t (TestMessage (timeout_text (ms w))) None])
               @ [Kill],
             snd (watch_all w (TimerTick now # evs)))
        \<and> \<not> timer (snd (watch_all w (TimerTick now # evs))))
   \<and> (timer w \<and> now - last_t w \<le> ms w \<longrightarrow> watch w (TimerTick now) = ([], w))
   \<and> (ev = ChildClose c \<or> ev = ChildError m \<longrightarrow>
        fst (watch_all w (ev # evs)) = [] \<and> \<not> timer (snd (watch_all w (ev # evs))))
   \<and> (\<not> timer w \<longrightarrow> fst (watch_all w evs) = [] \<and> \<not> timer (snd (watch_all w evs)))
   \<and> clearInterval (clearInterval w) = clearInterval w"
proof -
  have fire: "watch_all w (TimerTick now # evs)
          = ([AppendOutput (timeout_text (ms w) @ CRLF) None (wd_currentTest w)]
               @ (case wd_currentTest w of
                    None \<Rightarrow> []
                  | Some t \<Rightarrow> [Errored t (TestMessage (timeout_text (ms w))) None])
               @ [Kill],
             snd (watch_all w (TimerTick now # evs)))
        \<and> \<not> timer (snd (watch_all w (TimerTick now # evs)))"
    if "timer w" "ms w < now - last_t w"
  proof -
    have w: "watch w (TimerTick now)
          = ([AppendOutput (timeout_text (ms w) @ CRLF) None (wd_currentTest w)]
               @ (case wd_currentTest w of
                    None \<Rightarrow> []
                  | Some t \<Rightarrow> [Errored t (TestMessage (timeout_text (ms w))) None])
               @ [Kill], clearInterval w)"
      using that by (simp add: watch_def tick_def)
    have "\<not> timer (clearInterval w)" by (simp add: clearInterval_def)
    from watch_all_cleared [OF this, of evs] w show ?thesis
      by (simp add: prod_eq_iff watch_all_fst watch_all_snd del: watch_all.simps(2))
  qed
  have idle: "watch w (TimerTick now) = ([], w)" if "timer w" "now - last_t w \<le> ms w"
    using that by (simp add: watch_def tick_def)
  have closed: "fst (watch_all w (ev # evs)) = [] \<and> \<not> timer (snd (watch_all w (ev # evs)))"
    if "ev = ChildClose c \<or> ev = ChildError m"
  proof -
    from that have w: "watch w ev = ([], clearInterval w)" by (auto simp: watch_def)
    have "\<not> timer (clearInterval w)" by (simp add: clearInterval_def)
    from watch_all_cleared [OF this, of evs] w show ?thesis
      by (simp add: watch_all_fst watch_all_snd del: watch_all.simps(2))
  qed
  have idem: "clearInterval (clearInterval w) = clearInterval w"
    by (simp add: clearInterval_def)
  show ?thesis
    using watch_all_once [of w evs] fire idle closed watch_all_cleared [of w evs] idem
    by blast
qed

text \<open>
  A watchdog with an idle time of one second: it fires at the tick of 1600 ms and never
  again; a tick at 900 ms does nothing; after a \<^verbatim>\<open>close\<close> or an \<^verbatim>\<open>error\<close> event, and
  once cleared, it is silent.
\<close>

theorem C4_watchdog_fires_at_most_once_witness:
  "timer (withIdleWatchdog 1000 (Some sample_item) 0)
   \<and> ms (withIdleWatchdog 1000 (Some sample_item) 0)
       < 1600 - last_t (withIdleWatchdog 1000 (Some sample_item) 0)
   \<and> watch_all (withIdleWatchdog 1000 (Some sample_item) 0)
         [TimerTick 1600, TimerTick 2600, StdoutData 2700, TimerTick 9000, ChildClose None]
       = ([AppendOutput (timeout_text 1000 @ CRLF) None (Some sample_item),
           Errored sample_item (TestMessage (timeout_text 1000)) None,
           Kill],
          \<lparr>last_t = 2700, ms = 1000, wd_currentTest = Some sample_item, timer = False\<rparr>)
   \<and> 900 - last_t (withIdleWatchdog 1000 (Some sample_item) 0)
       \<le> ms (withIdleWatchdog 1000 (Some sample_item) 0)
   \<and> watch (withIdleWatchdog 1000 (Some sample_item) 0) (TimerTick 900)
       = ([], withIdleWatchdog 1000 (Some sample_item) 0)
   \<and> fst (watch_all (withIdleWatchdog 1000 (Some sample_item) 0)
             [ChildClose (Some 0), TimerTick 5000, TimerTick 6000]) = []
   \<and> fst (watch_all (withIdleWatchdog 1000 (Some sample_item) 0)
             [ChildError ''spawn busted ENOENT'', TimerTick 5000]) = []
   \<and> \<not> timer (clearInterval (withIdleWatchdog 1000 (Some sample_item) 0))
   \<and> fst (watch_all (clearInterval (withIdleWatchdog 1000 (Some sample_item) 0))
             [TimerTick 5000, TimerTick 6000]) = []
   \<and> clearInterval (clearInterval (withIdleWatchdog 1000 (Some sample_item) 0))
       = clearInterval (withIdleWatchdog 1000 (Some sample_item) 0)"
proof -
  let ?w = "withIdleWatchdog 1000 (Some sample_item) 0"
  have h: "timer ?w" "ms ?w < 1600 - last_t ?w" "900 - last_t ?w \<le> ms ?w"
    "\<not> timer (clearInterval ?w)" "ms ?w = 1000" "wd_currentTest ?w = Some sample_item"
    by (simp_all add: withIdleWatchdog_def clearInterval_def)
  have s: "snd (watch_all ?w [TimerTick 1600, TimerTick 2600, StdoutData 2700, TimerTick 9000,
                              ChildClose None])
           = \<lparr>last_t = 2700, ms = 1000, wd_currentTest = Some sample_item, timer = False\<rparr>"
    by (simp add: watch_def tick_def bump_def clearInterval_def withIdleWatchdog_def)
  show ?thesis
    using h s
      C4_watchdog_fires_at_most_once [of ?w "[TimerTick 2600, StdoutData 2700, TimerTick 9000, ChildClose None]" 1600]
      C4_watchdog_fires_at_most_once [of ?w "[]" 900]
      C4_watchdog_fires_at_most_once [of ?w "[TimerTick 5000, TimerTick 6000]" 0 "ChildClose (Some 0)" "Some 0"]
      C4_watchdog_fires_at_most_once [of ?w "[TimerTick 5000]" 0 "ChildError ''spawn busted ENOENT''" None
            "''spawn busted ENOENT''"]
      C4_watchdog_fires_at_most_once [of "clearInterval ?w" "[TimerTick 5000, TimerTick 6000]"]
    by simp
qed

lemma watchdog_test_fixed:
  "wd_currentTest (snd (watch w ev)) = wd_currentTest w"
  by (cases ev) (simp_all add: watch_def bump_def clearInterval_def tick_def)

lemma run_watchdog_test:
  "wd_currentTest (rs_watchdog (snd (run e rs evs))) = wd_currentTest (rs_watchdog rs)"
proof (induction evs arbitrary: rs)
  case Nil
  then show ?case by simp
next
  case (Cons ev evs)
  have "wd_currentTest (rs_watchdog (snd (step e rs ev))) = wd_currentTest (rs_watchdog rs)"
    using watchdog_test_fixed [of "rs_watchdog rs" ev]
    by (auto simp: step_def split: prod.splits)
  then show ?case using Cons.IH by (simp add: run_Cons_snd del: run.simps(2))
qed

lemma execute_watchdog_test:
  "wd_currentTest (rs_watchdog (snd (run e (execute_start e now) evs))) = None"
  by (simp add: run_watchdog_test execute_start_def withIdleWatchdog_def)

text \<open>
  Claim C2 asks the watchdog to attribute a timeout to the test that is active when the
  timer expires. A run on which it does not: a \<^verbatim>\<open>testStart\<close> that resolves arrives, then
  the timer ticks after more than the idle time. The active test is \<open>sample_item\<close>, yet
  the timeout line is attributed to no test and \<^verbatim>\<open>run.errored\<close> is not called: the
  watchdog holds the value \<^verbatim>\<open>currentTest\<close> had when it was started.
\<close>

theorem C2_watchdog_keeps_stale_test:
  "run (sample_env ''linux'') (execute_start (sample_env ''linux'') 0)
     [LineRead (structured payload_start), TimerTick 120001]
   = ([AppendOutput (''[Busted] '' @ glyph_play @ '' Run: suite a'' @ CRLF) None None,
       Started sample_item,
       AppendOutput (timeout_text 120000 @ CRLF) None None,
       Kill],
      \<lparr>rs_session = \<lparr>cntSuccessTests = 0, cntFailTests = 0, currentTest = Some sample_item\<rparr>,
       rs_watchdog = \<lparr>last_t = 0, ms = 120000, wd_currentTest = None, timer = False\<rparr>\<rparr>)"
  by (simp add: step_def watch_def handlers_def sample_start returns_def execute_start_def
        withIdleWatchdog_def tick_def clearInterval_def)
    (simp add: sample_env_def)

section \<open>Completion\<close>

text \<open>
  Claim C5. On the child's \<^verbatim>\<open>close\<close> event the run sink gets exactly one output, the
  summary line: the success wording exactly when the exit code is 0, followed by the two
  counters; then come the two log calls, and last the promise is resolved with the exit
  code, or with 1 when the code is \<^verbatim>\<open>null\<close>. The watchdog writes nothing on this event.
\<close>

theorem C5_close_resolves_exit_code:
  "step e rs (ChildClose c)
     = ([AppendOutput (close_msg c @ '' '' @ statistics (rs_session rs) @ CRLF) None
           (currentTest (rs_session rs)),
         LoggerInfo (close_msg c),
         DeveloperLog (''[Busted] close: '' @ code_or_null c) [],
         Resolve (case c of None \<Rightarrow> 1 | Some n \<Rightarrow> n)],
        rs\<lparr>rs_watchdog := clearInterval (rs_watchdog rs)\<rparr>)
   \<and> sink_outputs (fst (step e rs (ChildClose c)))
       = [(close_msg c @ '' '' @ statistics (rs_session rs) @ CRLF, None,
           currentTest (rs_session rs))]
   \<and> (close_msg c = ''[Busted] '' @ glyph_check @ '' Finished successfully'') = (c = Some 0)
   \<and> statistics (rs_session rs)
       = ''with success: '' @ string_of_nat (cntSuccessTests (rs_session rs))
           @ '' and fails: '' @ string_of_nat (cntFailTests (rs_session rs))"
  by (simp add: step_def watch_def handlers_def onClose_def resultConcole_def close_msg_def
        statistics_def glyph_check_def glyph_cross_def)

text \<open>
  One success and one fail: exit code 0 gives \<^verbatim>\<open>success: 1 and fails: 1\<close> in the
  success wording and resolves with 0; the code \<^verbatim>\<open>null\<close> resolves with 1.
\<close>

theorem C5_close_resolves_exit_code_witness:
  "step (sample_env ''linux'')
     \<lparr>rs_session = \<lparr>cntSuccessTests = 1, cntFailTests = 1, currentTest = None\<rparr>,
      rs_watchdog = withIdleWatchdog 120000 None 0\<rparr>
     (ChildClose (Some 0))
   = ([AppendOutput
         (''[Busted] '' @ glyph_check
            @ '' Finished successfully with success: 1 and fails: 1'' @ CRLF) None None,
       LoggerInfo (''[Busted] '' @ glyph_check @ '' Finished successfully''),
       DeveloperLog ''[Busted] close: 0'' [],
       Resolve 0],
      \<lparr>rs_session = \<lparr>cntSuccessTests = 1, cntFailTests = 1, currentTest = None\<rparr>,
       rs_watchdog = clearInterval (withIdleWatchdog 120000 None 0)\<rparr>)
   \<and> fst (step (sample_env ''linux'')
            \<lparr>rs_session = \<lparr>cntSuccessTests = 1, cntFailTests = 1, currentTest = None\<rparr>,
             rs_watchdog = withIdleWatchdog 120000 None 0\<rparr>
            (ChildClose None))
       = [AppendOutput
            (''[Busted] '' @ glyph_cross
               @ '' Failed with exit code null with success: 1 and fails: 1'' @ CRLF) None None,
          LoggerInfo (''[Busted] '' @ glyph_cross @ '' Failed with exit code null''),
          DeveloperLog ''[Busted] close: null'' [],
          Resolve 1]"
proof -
  let ?rs = "\<lparr>rs_session = \<lparr>cntSuccessTests = 1, cntFailTests = 1, currentTest = None\<rparr>,
             rs_watchdog = withIdleWatchdog 120000 None 0\<rparr>"
  have d: "string_of_nat (Suc 0) = ''1''" "string_of_int 0 = ''0''"
    by code_simp+
  have m: "close_msg (Some 0) = ''[Busted] '' @ glyph_check @ '' Finished successfully''"
    "close_msg None = ''[Busted] '' @ glyph_cross @ '' Failed with exit code null''"
    by (simp_all add: close_msg_def code_or_null_def)
  show ?thesis
    using C5_close_resolves_exit_code [of "sample_env ''linux''" ?rs "Some 0"] C5_close_resolves_exit_code [of "sample_env ''linux''" ?rs None]
    by (simp add: d m code_or_null_def)
qed

end
